theory Spec2Isabelle
  imports Complex_Main "HOL-Library.Sublist" "HOL-Library.Multiset" "HOL-Library.Product_Lexorder"
begin

section \<open>Python values and strings\<close>

text \<open>
  A job is a Python dict whose text fields hold a \<open>str\<close> or \<open>None\<close>, or are absent.
  A field of the model is a \<open>pyval option\<close>: \<open>None\<close> is an absent key, \<open>Some PNone\<close>
  the Python value \<open>None\<close>, \<open>Some (PStr s)\<close> a string. Values of other Python types
  (floats, numbers) are outside the model. A \<open>char\<close> stands for a code point below 256;
  strings with higher code points are outside the model too.
\<close>

datatype pyval = PNone | PStr string

text \<open>\<open>d.get(key, default)\<close> on the looked-up field.\<close>

fun py_get :: "pyval option \<Rightarrow> pyval \<Rightarrow> pyval" where
  "py_get None dflt = dflt"
| "py_get (Some v) dflt = v"

text \<open>\<open>str(v)\<close>.\<close>

fun py_str :: "pyval \<Rightarrow> string" where
  "py_str PNone = ''None''"
| "py_str (PStr s) = s"

text \<open>\<open>str.lower()\<close> on code points below 256: A-Z, and the Latin-1 capitals 192-222 but 215.\<close>

definition lower_char :: "char \<Rightarrow> char" where
  "lower_char c =
     (let n = (of_char c :: nat)
      in if (65 \<le> n \<and> n \<le> 90) \<or> (192 \<le> n \<and> n \<le> 222 \<and> n \<noteq> 215)
         then char_of (n + 32) else c)"

definition lower :: "string \<Rightarrow> string" where
  "lower s = map lower_char s"

text \<open>\<open>str.isspace()\<close> on one code point below 256, as \<open>str.strip()\<close> uses it.\<close>

definition is_space :: "char \<Rightarrow> bool" where
  "is_space c = ((of_char c :: nat) \<in> set [9, 10, 11, 12, 13, 28, 29, 30, 31, 32, 133, 160])"

definition strip :: "string \<Rightarrow> string" where
  "strip s = rev (dropWhile is_space (rev (dropWhile is_space s)))"

text \<open>\<open>k in t\<close> on strings: \<open>k\<close> is a contiguous substring of \<open>t\<close>.\<close>

fun str_contains :: "string \<Rightarrow> string \<Rightarrow> bool" where
  "str_contains k [] = (k = [])"
| "str_contains k (c # cs) = (prefix k (c # cs) \<or> str_contains k cs)"

section \<open>The Job record\<close>

record breakdown =
  title_matches :: "string list"
  title_excludes :: "string list"
  description_matches :: "string list"
  total_score :: int

text \<open>
  The keys of a job dict. The key \<open>id\<close> is the field \<open>job_id\<close>. Keys that only some
  adapters write (\<open>departments\<close>, \<open>salary\<close>, ...) live in the record's extension.
\<close>

record job =
  job_id :: "pyval option"
  title :: "pyval option"
  company :: "pyval option"
  location :: "pyval option"
  description :: "pyval option"
  url :: "pyval option"
  posted_date :: "pyval option"
  source :: "pyval option"
  relevance_score :: "int option"
  score_breakdown :: "breakdown option"

text \<open>\<open>job.get('relevance_score', 0)\<close>; a score that is present is an integer.\<close>

definition score_of :: "'a job_scheme \<Rightarrow> int" where
  "score_of j = (case relevance_score j of None \<Rightarrow> 0 | Some s \<Rightarrow> s)"

section \<open>difflib.SequenceMatcher(None, a, b).ratio()\<close>

text \<open>
  The matcher of Python's standard library (\<open>Lib/difflib.py\<close>), as
  \<open>calculate_similarity\<close> calls it: no junk predicate, \<open>autojunk\<close> on. Indices are
  naturals; \<open>i-k+1\<close> is written \<open>Suc i - k\<close>, where \<open>k \<le> i + 1\<close> (lemma
  \<open>flm_inner_inv\<close>).
\<close>

text \<open>
  \<open>__chain_b\<close>: \<open>b2j.get(x, [])\<close> after the purge of popular elements, the increasing
  list of the indices of \<open>x\<close> in \<open>b\<close>, or nothing when \<open>x\<close> is popular
  (\<open>len(b) >= 200\<close> and more than \<open>len(b) // 100 + 1\<close> occurrences).
\<close>

definition b2j_get :: "'a list \<Rightarrow> 'a \<Rightarrow> nat list" where
  "b2j_get b x =
     (let idxs = filter (\<lambda>j. b ! j = x) [0..<length b]; n = length b
      in if n \<ge> 200 \<and> length idxs > n div 100 + 1 then [] else idxs)"

text \<open>\<open>j2lenget(j-1, 0)\<close>.\<close>

definition j2len_get :: "(nat \<rightharpoonup> nat) \<Rightarrow> nat \<Rightarrow> nat" where
  "j2len_get j2len j =
     (if j = 0 then 0 else case j2len (j - 1) of None \<Rightarrow> 0 | Some v \<Rightarrow> v)"

text \<open>The loop \<open>for j in b2j.get(a[i], nothing)\<close>; the state is \<open>(newj2len, besti, bestj, bestsize)\<close>.\<close>

fun flm_inner ::
  "(nat \<rightharpoonup> nat) \<Rightarrow> nat \<Rightarrow> nat \<Rightarrow> nat \<Rightarrow> nat list
     \<Rightarrow> (nat \<rightharpoonup> nat) \<times> nat \<times> nat \<times> nat \<Rightarrow> (nat \<rightharpoonup> nat) \<times> nat \<times> nat \<times> nat" where
  "flm_inner j2len i blo bhi [] st = st"
| "flm_inner j2len i blo bhi (j # js) (newj2len, besti, bestj, bestsize) =
     (if j < blo then flm_inner j2len i blo bhi js (newj2len, besti, bestj, bestsize)
      else if j \<ge> bhi then (newj2len, besti, bestj, bestsize)
      else let k = j2len_get j2len j + 1
           in flm_inner j2len i blo bhi js
                (newj2len(j \<mapsto> k),
                 if k > bestsize then (Suc i - k, Suc j - k, k) else (besti, bestj, bestsize)))"

text \<open>The loop \<open>for i in range(alo, ahi)\<close>; the state is \<open>(j2len, besti, bestj, bestsize)\<close>.\<close>

fun flm_main ::
  "'a list \<Rightarrow> 'a list \<Rightarrow> nat \<Rightarrow> nat \<Rightarrow> nat list
     \<Rightarrow> (nat \<rightharpoonup> nat) \<times> nat \<times> nat \<times> nat \<Rightarrow> (nat \<rightharpoonup> nat) \<times> nat \<times> nat \<times> nat" where
  "flm_main a b blo bhi [] st = st"
| "flm_main a b blo bhi (i # is) (j2len, besti, bestj, bestsize) =
     flm_main a b blo bhi is
       (flm_inner j2len i blo bhi (b2j_get b (a ! i)) (Map.empty, besti, bestj, bestsize))"

text \<open>
  The two loops that extend the best block by equal elements on each side. Without a
  junk predicate \<open>bjunk\<close> is empty: \<open>not isbjunk(...)\<close> holds in these loops, and the
  two loops over junk elements that follow them in the library do nothing.
\<close>

function extend_left :: "'a list \<Rightarrow> 'a list \<Rightarrow> nat \<Rightarrow> nat \<Rightarrow> nat \<times> nat \<times> nat \<Rightarrow> nat \<times> nat \<times> nat" where
  "extend_left a b alo blo (besti, bestj, bestsize) =
     (if besti > alo \<and> bestj > blo \<and> a ! (besti - 1) = b ! (bestj - 1)
      then extend_left a b alo blo (besti - 1, bestj - 1, bestsize + 1)
      else (besti, bestj, bestsize))"
  by pat_completeness auto
termination
  by (relation "measure (\<lambda>(a, b, alo, blo, besti, bestj, bestsize). besti)") auto

declare extend_left.simps [simp del]

function extend_right :: "'a list \<Rightarrow> 'a list \<Rightarrow> nat \<Rightarrow> nat \<Rightarrow> nat \<times> nat \<times> nat \<Rightarrow> nat \<times> nat \<times> nat" where
  "extend_right a b ahi bhi (besti, bestj, bestsize) =
     (if besti + bestsize < ahi \<and> bestj + bestsize < bhi
         \<and> a ! (besti + bestsize) = b ! (bestj + bestsize)
      then extend_right a b ahi bhi (besti, bestj, bestsize + 1)
      else (besti, bestj, bestsize))"
  by pat_completeness auto
termination
  by (relation "measure (\<lambda>(a, b, ahi, bhi, besti, bestj, bestsize). ahi - (besti + bestsize))") auto

declare extend_right.simps [simp del]

definition find_longest_match :: "'a list \<Rightarrow> 'a list \<Rightarrow> nat \<Rightarrow> nat \<Rightarrow> nat \<Rightarrow> nat \<Rightarrow> nat \<times> nat \<times> nat" where
  "find_longest_match a b alo ahi blo bhi =
     extend_right a b ahi bhi
       (extend_left a b alo blo
          (snd (flm_main a b blo bhi [alo..<ahi] (Map.empty, alo, blo, 0))))"

text \<open>The measure under which the work list of \<open>get_matching_blocks\<close> shrinks.\<close>

definition queue_weight :: "(nat \<times> nat \<times> nat \<times> nat) list \<Rightarrow> nat" where
  "queue_weight queue = sum_list (map (\<lambda>(alo, ahi, blo, bhi). 2 * (ahi - alo) + 1) queue)"

text \<open>
  The loop \<open>while queue\<close> of \<open>get_matching_blocks\<close>: the work list \<open>queue\<close>, its top
  (what \<open>queue.pop()\<close> returns) at the head of the list, and the blocks found so far.
  Its termination is proved below, after \<open>find_longest_match_bounds\<close>.
\<close>

function mb_loop ::
  "'a list \<Rightarrow> 'a list \<Rightarrow> (nat \<times> nat \<times> nat \<times> nat) list \<Rightarrow> (nat \<times> nat \<times> nat) list
     \<Rightarrow> (nat \<times> nat \<times> nat) list" where
  "mb_loop a b [] blocks = blocks"
| "mb_loop a b ((alo, ahi, blo, bhi) # queue) blocks =
     (case find_longest_match a b alo ahi blo bhi of
        (i, j, k) \<Rightarrow>
          if k \<noteq> 0 then
            mb_loop a b
              ((if i + k < ahi \<and> j + k < bhi then [(i + k, ahi, j + k, bhi)] else []) @
               (if alo < i \<and> blo < j then [(alo, i, blo, j)] else []) @ queue)
              (blocks @ [(i, j, k)])
          else mb_loop a b queue blocks)"
  by pat_completeness auto

text \<open>
  What the main loop of \<open>find_longest_match\<close> keeps, \<open>n\<close> being the next index of
  \<open>a\<close>: a run length recorded in \<open>j2len\<close> at \<open>j\<close> fits between \<open>alo\<close> and \<open>n\<close> and
  between \<open>blo\<close> and \<open>j\<close>; the best block lies in the ranges, or is empty at their
  start. So \<open>Suc i - k\<close> and \<open>Suc j - k\<close> are \<open>i-k+1\<close> and \<open>j-k+1\<close>.
\<close>

definition flm_inv ::
  "nat \<Rightarrow> nat \<Rightarrow> nat \<Rightarrow> nat \<Rightarrow> (nat \<rightharpoonup> nat) \<times> nat \<times> nat \<times> nat \<Rightarrow> bool" where
  "flm_inv alo blo bhi n st =
     (case st of
        (j2len, besti, bestj, bestsize) \<Rightarrow>
          (\<forall>j v. j2len j = Some v \<longrightarrow> v + alo \<le> n \<and> v + blo \<le> Suc j)
          \<and> alo \<le> besti \<and> besti + bestsize \<le> n \<and> blo \<le> bestj
          \<and> (if bestsize = 0 then besti = alo \<and> bestj = blo else bestj + bestsize \<le> bhi))"

text \<open>
  The rest of \<open>get_matching_blocks\<close>: sort the blocks, join adjacent ones, add the
  closing \<open>(la, lb, 0)\<close>. The state of the joining loop is \<open>(i1, j1, k1)\<close> and
  \<open>non_adjacent\<close>.
\<close>

fun join_adjacent ::
  "(nat \<times> nat \<times> nat) list \<Rightarrow> nat \<times> nat \<times> nat \<Rightarrow> (nat \<times> nat \<times> nat) list
     \<Rightarrow> (nat \<times> nat \<times> nat) list" where
  "join_adjacent [] (i1, j1, k1) non_adjacent =
     (if k1 \<noteq> 0 then non_adjacent @ [(i1, j1, k1)] else non_adjacent)"
| "join_adjacent ((i2, j2, k2) # blocks) (i1, j1, k1) non_adjacent =
     (if i1 + k1 = i2 \<and> j1 + k1 = j2 then join_adjacent blocks (i1, j1, k1 + k2) non_adjacent
      else join_adjacent blocks (i2, j2, k2)
             (if k1 \<noteq> 0 then non_adjacent @ [(i1, j1, k1)] else non_adjacent))"

definition get_matching_blocks :: "'a list \<Rightarrow> 'a list \<Rightarrow> (nat \<times> nat \<times> nat) list" where
  "get_matching_blocks a b =
     (let la = length a; lb = length b;
          matching_blocks = sort (mb_loop a b [(0, la, 0, lb)] [])
      in join_adjacent matching_blocks (0, 0, 0) [] @ [(la, lb, 0)])"

text \<open>
  \<open>_calculate_ratio\<close> and \<open>ratio\<close>. The float \<open>2.0 * matches / length\<close> is the
  rational it rounds.
\<close>

definition calculate_ratio :: "nat \<Rightarrow> nat \<Rightarrow> rat" where
  "calculate_ratio matches len = (if len \<noteq> 0 then 2 * of_nat matches / of_nat len else 1)"

definition ratio :: "'a list \<Rightarrow> 'a list \<Rightarrow> rat" where
  "ratio a b =
     calculate_ratio (sum_list (map (\<lambda>(i, j, k). k) (get_matching_blocks a b)))
       (length a + length b)"

section \<open>utils/deduplicator.py: JobDeduplicator\<close>

text \<open>
  The object holds \<open>title_threshold\<close>, a float; the model holds the rational the float
  stands for. The default \<open>0.85\<close> is \<open>17 / 20\<close>: a ratio \<open>2 * M / T\<close> compares with the
  float as it compares with \<open>17 / 20\<close> for all strings of feasible length.
\<close>

record job_deduplicator =
  title_threshold :: rat

definition JobDeduplicator_init :: "rat \<Rightarrow> job_deduplicator" where
  "JobDeduplicator_init title_similarity_threshold =
     \<lparr>title_threshold = title_similarity_threshold\<rparr>"

definition JobDeduplicator_default :: job_deduplicator where
  "JobDeduplicator_default = JobDeduplicator_init (17 / 20)"

definition calculate_similarity :: "string \<Rightarrow> string \<Rightarrow> rat" where
  "calculate_similarity str1 str2 = ratio (lower str1) (lower str2)"

text \<open>
  The second component of the result of \<open>are_jobs_duplicate\<close>. \<open>reason_text\<close> gives the
  string of the source; \<open>fmt\<close> stands for the float format \<open>{similarity:.2f}\<close>.
\<close>

datatype reason =
    Exact_ID_match
  | Missing_or_invalid_company
  | Different_companies
  | Missing_or_invalid_title
  | Exact_match string
  | Similar_titles string rat
  | Different_roles_at string

fun reason_text :: "(rat \<Rightarrow> string) \<Rightarrow> reason \<Rightarrow> string" where
  "reason_text fmt Exact_ID_match = ''Exact ID match''"
| "reason_text fmt Missing_or_invalid_company = ''Missing or invalid company''"
| "reason_text fmt Different_companies = ''Different companies''"
| "reason_text fmt Missing_or_invalid_title = ''Missing or invalid title''"
| "reason_text fmt (Exact_match company1) = ''Exact match: '' @ company1"
| "reason_text fmt (Similar_titles company1 similarity) =
     ''Similar titles: '' @ company1 @ '' ('' @ fmt similarity @ '')''"
| "reason_text fmt (Different_roles_at company1) = ''Different roles at '' @ company1"

text \<open>
  \<open>str(raw).lower().strip() if raw not in [None, ''] else ''\<close>, for
  \<open>raw = job.get(key, '')\<close>.
\<close>

definition normalized :: "pyval option \<Rightarrow> string" where
  "normalized field =
     (let raw = py_get field (PStr [])
      in if raw \<notin> set [PNone, PStr []] then strip (lower (py_str raw)) else [])"

text \<open>\<open>s in ['nan', 'none', '']\<close>.\<close>

definition invalid_name :: "string \<Rightarrow> bool" where
  "invalid_name s = (s \<in> set [''nan'', ''none'', []])"

definition are_jobs_duplicate ::
  "job_deduplicator \<Rightarrow> 'a job_scheme \<Rightarrow> 'a job_scheme \<Rightarrow> bool \<times> reason" where
  "are_jobs_duplicate self job1 job2 =
     (if py_get (job_id job1) PNone = py_get (job_id job2) PNone then (True, Exact_ID_match)
      else
        let company1 = normalized (company job1); company2 = normalized (company job2)
        in if invalid_name company1 \<or> invalid_name company2
           then (False, Missing_or_invalid_company)
           else if company1 \<noteq> company2 then (False, Different_companies)
           else
             let title1 = normalized (title job1); title2 = normalized (title job2)
             in if invalid_name title1 \<or> invalid_name title2
                then (False, Missing_or_invalid_title)
                else if title1 = title2 then (True, Exact_match company1)
                else
                  let similarity = calculate_similarity title1 title2
                  in if similarity \<ge> title_threshold self
                     then (True, Similar_titles company1 similarity)
                     else (False, Different_roles_at company1))"

text \<open>
  The loop \<open>for existing_job in unique_jobs\<close> for one incoming \<open>job\<close>: the entries still
  to visit, and the result \<open>(is_duplicate, unique_jobs)\<close>; the loop breaks at the first
  duplicate. \<open>list.remove\<close> deletes the first entry equal to its argument. The counter
  \<open>duplicates_found\<close> and the log lines have no effect on the result.
\<close>

fun scan_unique ::
  "job_deduplicator \<Rightarrow> 'a job_scheme \<Rightarrow> 'a job_scheme list \<Rightarrow> 'a job_scheme list
     \<Rightarrow> bool \<times> 'a job_scheme list" where
  "scan_unique self job unique_jobs [] = (False, unique_jobs)"
| "scan_unique self job unique_jobs (existing_job # rest) =
     (if fst (are_jobs_duplicate self job existing_job)
      then (True,
            if score_of job > score_of existing_job
            then remove1 existing_job unique_jobs @ [job]
            else unique_jobs)
      else scan_unique self job unique_jobs rest)"

text \<open>One turn of the loop \<open>for job in jobs\<close>.\<close>

definition dedup_step ::
  "job_deduplicator \<Rightarrow> 'a job_scheme list \<Rightarrow> 'a job_scheme \<Rightarrow> 'a job_scheme list" where
  "dedup_step self unique_jobs job =
     (case scan_unique self job unique_jobs unique_jobs of
        (is_duplicate, unique_jobs') \<Rightarrow>
          if \<not> is_duplicate then unique_jobs' @ [job] else unique_jobs')"

definition deduplicate :: "job_deduplicator \<Rightarrow> 'a job_scheme list \<Rightarrow> 'a job_scheme list" where
  "deduplicate self jobs = (if jobs = [] then [] else foldl (dedup_step self) [] jobs)"

section \<open>filters/keyword_filter.py: KeywordFilter\<close>

text \<open>The parsed \<open>keywords.yml\<close>; a missing key is \<open>None\<close>.\<close>

record keyword_config =
  cfg_internship_keywords :: "string list option"
  cfg_include_title :: "string list option"
  cfg_exclude_title :: "string list option"
  cfg_include_description :: "string list option"
  cfg_minimum_match_score :: "int option"

record keyword_filter =
  internship_keywords :: "string list"
  include_title :: "string list"
  exclude_title :: "string list"
  include_description :: "string list"
  minimum_score :: int

text \<open>\<open>[k.lower() for k in config.get(key, [])]\<close>.\<close>

definition lowered :: "string list option \<Rightarrow> string list" where
  "lowered ks = map lower (case ks of None \<Rightarrow> [] | Some l \<Rightarrow> l)"

definition KeywordFilter_init :: "keyword_config \<Rightarrow> keyword_filter" where
  "KeywordFilter_init config =
     \<lparr>internship_keywords = lowered (cfg_internship_keywords config),
      include_title = lowered (cfg_include_title config),
      exclude_title = lowered (cfg_exclude_title config),
      include_description = lowered (cfg_include_description config),
      minimum_score = (case cfg_minimum_match_score config of None \<Rightarrow> 3 | Some m \<Rightarrow> m)\<rparr>"

text \<open>\<open>str(job.get(key, '')).lower()\<close>.\<close>

definition lowered_text :: "pyval option \<Rightarrow> string" where
  "lowered_text field = lower (py_str (py_get field (PStr [])))"

text \<open>\<open>for keyword in keywords: if keyword in text: return True\<close>, else fall through.\<close>

fun any_keyword_in :: "string list \<Rightarrow> string \<Rightarrow> bool" where
  "any_keyword_in [] text = False"
| "any_keyword_in (keyword # keywords) text =
     (if str_contains keyword text then True else any_keyword_in keywords text)"

definition is_internship :: "keyword_filter \<Rightarrow> 'a job_scheme \<Rightarrow> bool" where
  "is_internship self job =
     (let title = lowered_text (title job); description = lowered_text (description job)
      in if any_keyword_in (internship_keywords self) title then True
         else if any_keyword_in (take 3 (internship_keywords self)) (take 500 description)
         then True
         else False)"

text \<open>
  One scoring loop: for each keyword found in the text add \<open>weight\<close> to the score and
  append the keyword to the list of the breakdown.
\<close>

fun score_keywords :: "int \<Rightarrow> string list \<Rightarrow> string \<Rightarrow> int \<times> string list \<Rightarrow> int \<times> string list" where
  "score_keywords weight [] text (score, matched) = (score, matched)"
| "score_keywords weight (keyword # keywords) text (score, matched) =
     (if str_contains keyword text
      then score_keywords weight keywords text (score + weight, matched @ [keyword])
      else score_keywords weight keywords text (score, matched))"

definition calculate_relevance_score :: "keyword_filter \<Rightarrow> 'a job_scheme \<Rightarrow> int \<times> breakdown" where
  "calculate_relevance_score self job =
     (let title = lowered_text (title job); description = lowered_text (description job);
          (score1, matches) = score_keywords 3 (include_title self) title (0, []);
          (score2, excludes) = score_keywords (- 10) (exclude_title self) title (score1, []);
          (score3, desc_matches) =
             score_keywords 1 (include_description self) description (score2, [])
      in (score3,
          \<lparr>title_matches = matches, title_excludes = excludes,
           description_matches = desc_matches, total_score = score3\<rparr>))"

definition is_relevant :: "keyword_filter \<Rightarrow> 'a job_scheme \<Rightarrow> bool" where
  "is_relevant self job = (fst (calculate_relevance_score self job) \<ge> minimum_score self)"

text \<open>
  \<open>xs.sort(key=f, reverse=True)\<close> and \<open>sorted(xs, key=f, reverse=True)\<close>: the list is
  reversed, sorted by a stable sort and reversed again.
\<close>

definition sort_key_reverse :: "('a \<Rightarrow> 'k::linorder) \<Rightarrow> 'a list \<Rightarrow> 'a list" where
  "sort_key_reverse f xs = rev (sort_key f (rev xs))"

text \<open>
  The loop of \<open>filter_jobs\<close>, returning \<open>filtered_jobs\<close>. The source sets the two keys
  on the job dict in place; the model returns the updated record.
\<close>

fun filter_loop :: "keyword_filter \<Rightarrow> bool \<Rightarrow> 'a job_scheme list \<Rightarrow> 'a job_scheme list" where
  "filter_loop self require_internship [] = []"
| "filter_loop self require_internship (job # jobs) =
     (if require_internship \<and> \<not> is_internship self job
      then filter_loop self require_internship jobs
      else
        case calculate_relevance_score self job of
          (score, breakdown) \<Rightarrow>
            if score \<ge> minimum_score self
            then job\<lparr>relevance_score := Some score, score_breakdown := Some breakdown\<rparr>
                   # filter_loop self require_internship jobs
            else filter_loop self require_internship jobs)"

definition filter_jobs :: "keyword_filter \<Rightarrow> 'a job_scheme list \<Rightarrow> bool \<Rightarrow> 'a job_scheme list" where
  "filter_jobs self jobs require_internship =
     sort_key_reverse score_of (filter_loop self require_internship jobs)"

subsection \<open>get_statistics\<close>

datatype py_error = KeyError string

record statistics =
  total :: nat
  average_score :: rat
  score_range :: "int \<times> int"
  top_keywords :: "(string \<times> nat) list"

text \<open>\<open>[j['relevance_score'] for j in jobs]\<close>: a job without the key raises.\<close>

fun scores_of :: "'a job_scheme list \<Rightarrow> py_error + int list" where
  "scores_of [] = Inr []"
| "scores_of (j # js) =
     (case relevance_score j of
        None \<Rightarrow> Inl (KeyError ''relevance_score'')
      | Some s \<Rightarrow> (case scores_of js of Inl e \<Rightarrow> Inl e | Inr ss \<Rightarrow> Inr (s # ss)))"

text \<open>
  \<open>keyword_counts[keyword] = keyword_counts.get(keyword, 0) + 1\<close> on a dict, which keeps
  its keys in the order of their first insertion.
\<close>

fun count_keyword :: "(string \<times> nat) list \<Rightarrow> string \<Rightarrow> (string \<times> nat) list" where
  "count_keyword [] keyword = [(keyword, 1)]"
| "count_keyword ((k, c) # counts) keyword =
     (if k = keyword then (k, c + 1) # counts else (k, c) # count_keyword counts keyword)"

text \<open>\<open>job.get('score_breakdown', {}).get('title_matches', [])\<close>.\<close>

definition job_title_matches :: "'a job_scheme \<Rightarrow> string list" where
  "job_title_matches job =
     (case score_breakdown job of None \<Rightarrow> [] | Some bd \<Rightarrow> title_matches bd)"

definition keyword_counts :: "'a job_scheme list \<Rightarrow> (string \<times> nat) list" where
  "keyword_counts jobs =
     foldl (\<lambda>counts job. foldl count_keyword counts (job_title_matches job)) [] jobs"

text \<open>
  \<open>min\<close> and \<open>max\<close> of a non-empty list. The float \<open>sum(scores) / len(scores)\<close> is the
  rational it rounds; on the empty list the source returns the integers \<open>0\<close>.
\<close>

definition get_statistics :: "'a job_scheme list \<Rightarrow> py_error + statistics" where
  "get_statistics jobs =
     (if jobs = [] then
        Inr \<lparr>total = 0, average_score = 0, score_range = (0, 0), top_keywords = []\<rparr>
      else
        case scores_of jobs of
          Inl e \<Rightarrow> Inl e
        | Inr scores \<Rightarrow>
            Inr \<lparr>total = length jobs,
                 average_score = of_int (sum_list scores) / of_nat (length scores),
                 score_range = (fold min (tl scores) (hd scores), fold max (tl scores) (hd scores)),
                 top_keywords = take 10 (sort_key_reverse snd (keyword_counts jobs))\<rparr>)"

section \<open>Example jobs and configuration\<close>

definition example_job :: "string \<Rightarrow> string \<Rightarrow> string \<Rightarrow> int option \<Rightarrow> job" where
  "example_job i c t s =
     \<lparr>job_id = Some (PStr i), title = Some (PStr t), company = Some (PStr c),
      location = None, description = None, url = None, posted_date = None,
      source = None, relevance_score = s, score_breakdown = None\<rparr>"

definition ux_intern :: job where
  "ux_intern = example_job ''greenhouse_1'' ''Figma'' ''UX Intern'' (Some 6)"

definition uxui_internship :: job where
  "uxui_internship = example_job ''lever_2'' ''Figma'' ''UX/UI Internship'' (Some 6)"

definition uxui_intern :: job where
  "uxui_intern = example_job ''ashby_3'' ''Figma'' ''UX/UI Intern'' (Some 9)"

definition nan_company_job :: job where
  "nan_company_job = example_job ''greenhouse_7'' ''nan'' ''UX Design Intern'' None"

definition same_id_job :: job where
  "same_id_job = example_job ''greenhouse_7'' ''Figma'' ''Data Analyst'' None"

definition uiux_design_internship :: job where
  "uiux_design_internship = example_job ''greenhouse_11'' ''Figma'' ''UI/UX Design Internship'' None"

definition visual_design_internship :: job where
  "visual_design_internship = example_job ''lever_12'' ''Figma'' ''Visual Design Internship'' None"

text \<open>The test jobs at the end of \<open>deduplicator.py\<close>.\<close>

definition test_job_1 :: job where
  "test_job_1 = example_job ''1'' ''Figma'' ''Product Design Intern'' (Some 10)"

definition test_job_2 :: job where
  "test_job_2 = example_job ''2'' ''Figma'' ''Product Design Internship'' (Some 8)"

definition test_job_3 :: job where
  "test_job_3 = example_job ''3'' ''Stripe'' ''UX Design Intern'' (Some 9)"

definition test_job_4 :: job where
  "test_job_4 = example_job ''4'' ''Figma'' ''Engineering Intern'' (Some 7)"

definition test_job_5 :: job where
  "test_job_5 = example_job ''5'' ''Stripe'' ''UX Design Intern'' (Some 11)"

definition visual_design_internship_stripe :: job where
  "visual_design_internship_stripe =
     example_job ''lever_13'' ''Stripe'' ''Visual Design Internship'' None"

definition example_config :: keyword_config where
  "example_config =
     \<lparr>cfg_internship_keywords = Some [''Intern'', ''Internship'', ''Co-op'', ''Summer Analyst''],
      cfg_include_title = Some [''Design'', ''UX''],
      cfg_exclude_title = Some [''Engineer''],
      cfg_include_description = Some [''Figma''],
      cfg_minimum_match_score = None\<rparr>"

definition scored_job :: "string \<Rightarrow> string \<Rightarrow> job" where
  "scored_job t d = (example_job ''greenhouse_21'' ''Figma'' t None)\<lparr>description := Some (PStr d)\<rparr>"

definition ux_design_intern :: job where
  "ux_design_intern = scored_job ''UX Design Intern'' ''Work with Figma on prototypes''"

definition product_designer :: job where
  "product_designer = scored_job ''Product Designer'' ''Own the design system in Figma''"

definition designer_coop :: job where
  "designer_coop = scored_job ''Designer'' ''A four-month co-op position in our studio''"

definition designer_analyst :: job where
  "designer_analyst = scored_job ''Designer'' ''Join our summer analyst programme''"

definition ux_design_intern_scored :: job where
  "ux_design_intern_scored =
     ux_design_intern
       \<lparr>relevance_score := Some 7,
        score_breakdown :=
          Some \<lparr>title_matches = [''design'', ''ux''], title_excludes = [],
                description_matches = [''figma''], total_score = 7\<rparr>\<rparr>"

text \<open>
  An accumulated list in which no entry is judged a duplicate of an entry before it,
  the test taken in the direction the loop takes it (incoming job first).
\<close>

definition no_later_duplicate :: "job_deduplicator \<Rightarrow> 'a job_scheme list \<Rightarrow> bool" where
  "no_later_duplicate self u = sorted_wrt (\<lambda>e x. \<not> fst (are_jobs_duplicate self x e)) u"

section \<open>The matcher's blocks stay in range, and its work list empties\<close>

lemma j2len_get_le:
  assumes "\<forall>j v. j2len j = Some v \<longrightarrow> v + alo \<le> i \<and> v + blo \<le> Suc j"
    and "alo \<le> i" and "blo \<le> j"
  shows "j2len_get j2len j + alo \<le> i \<and> j2len_get j2len j + blo \<le> j"
proof (cases "j = 0")
  case True
  then show ?thesis using assms(2,3) by (simp add: j2len_get_def)
next
  case False
  show ?thesis
  proof (cases "j2len (j - 1)")
    case None
    then show ?thesis using False assms(2,3) by (simp add: j2len_get_def)
  next
    case (Some v)
    then have "v + alo \<le> i \<and> v + blo \<le> Suc (j - 1)" using assms(1) by blast
    then show ?thesis using False Some by (simp add: j2len_get_def)
  qed
qed

lemma flm_inner_inv:
  assumes "\<forall>j v. j2len j = Some v \<longrightarrow> v + alo \<le> i \<and> v + blo \<le> Suc j" "alo \<le> i"
  shows "flm_inv alo blo bhi (Suc i) st
           \<Longrightarrow> flm_inv alo blo bhi (Suc i) (flm_inner j2len i blo bhi js st)"
proof (induction js arbitrary: st)
  case Nil
  then show ?case by simp
next
  case (Cons j js)
  obtain nj bi bj bs where st: "st = (nj, bi, bj, bs)" by (cases st) auto
  show ?case
  proof (cases "j < blo")
    case True
    then show ?thesis using Cons.IH[OF Cons.prems] by (simp add: st)
  next
    case False
    show ?thesis
    proof (cases "j \<ge> bhi")
      case True
      then show ?thesis using False Cons.prems by (simp add: st)
    next
      case ge: False
      define k' where "k' = j2len_get j2len j + 1"
      have k: "j2len_get j2len j + alo \<le> i \<and> j2len_get j2len j + blo \<le> j"
        using assms False by (intro j2len_get_le) simp_all
      have inv': "flm_inv alo blo bhi (Suc i)
           (nj(j \<mapsto> k'), if k' > bs then (Suc i - k', Suc j - k', k') else (bi, bj, bs))"
        using Cons.prems k ge unfolding st k'_def flm_inv_def by auto
      have "flm_inner j2len i blo bhi (j # js) st =
            flm_inner j2len i blo bhi js
              (nj(j \<mapsto> k'), if k' > bs then (Suc i - k', Suc j - k', k') else (bi, bj, bs))"
        using False ge unfolding st k'_def by (simp add: Let_def)
      then show ?thesis using Cons.IH[OF inv'] by simp
    qed
  qed
qed

lemma flm_main_inv:
  "i \<le> ahi \<Longrightarrow> alo \<le> i \<Longrightarrow> flm_inv alo blo bhi i st
     \<Longrightarrow> flm_inv alo blo bhi ahi (flm_main a b blo bhi [i..<ahi] st)"
proof (induction "ahi - i" arbitrary: i st)
  case 0
  then show ?case by simp
next
  case (Suc n)
  obtain j2 bi bj bs where st: "st = (j2, bi, bj, bs)" by (cases st) auto
  have lt: "i < ahi" using Suc.hyps(2) by simp
  have inv0: "flm_inv alo blo bhi (Suc i) (Map.empty, bi, bj, bs)"
    using Suc.prems(3) by (simp add: flm_inv_def st)
  have j2: "\<forall>j v. j2 j = Some v \<longrightarrow> v + alo \<le> i \<and> v + blo \<le> Suc j"
    using Suc.prems(3) by (simp add: flm_inv_def st)
  have step: "flm_inv alo blo bhi (Suc i)
                (flm_inner j2 i blo bhi (b2j_get b (a ! i)) (Map.empty, bi, bj, bs))"
    using j2 Suc.prems(2) inv0 by (rule flm_inner_inv)
  have "flm_inv alo blo bhi ahi
          (flm_main a b blo bhi [Suc i..<ahi]
             (flm_inner j2 i blo bhi (b2j_get b (a ! i)) (Map.empty, bi, bj, bs)))"
    using Suc.hyps(2) lt Suc.prems(2) step by (intro Suc.hyps(1)) auto
  then show ?case using lt by (simp add: upt_conv_Cons st)
qed

lemma flm_main_bounds:
  assumes "snd (flm_main a b blo bhi [alo..<ahi] (Map.empty, alo, blo, 0)) = (i, j, k)"
  shows "alo \<le> i \<and> blo \<le> j \<and> (if k = 0 then i = alo \<and> j = blo else j + k \<le> bhi)
         \<and> (if alo \<le> ahi then i + k \<le> ahi else k = 0 \<and> i = alo)"
proof (cases "alo \<le> ahi")
  case True
  have "flm_inv alo blo bhi ahi (flm_main a b blo bhi [alo..<ahi] (Map.empty, alo, blo, 0))"
    using True by (intro flm_main_inv) (simp_all add: flm_inv_def)
  then show ?thesis using assms True
    by (cases "flm_main a b blo bhi [alo..<ahi] (Map.empty, alo, blo, 0)") (auto simp: flm_inv_def)
next
  case False
  then show ?thesis using assms by simp
qed

lemma extend_left_bounds:
  "alo \<le> fst st \<Longrightarrow> blo \<le> fst (snd st) \<Longrightarrow> extend_left a b alo blo st = (i, j, k) \<Longrightarrow>
     alo \<le> i \<and> blo \<le> j \<and> i + k = fst st + snd (snd st)
     \<and> j + k = fst (snd st) + snd (snd st) \<and> snd (snd st) \<le> k"
proof (induction a b alo blo st rule: extend_left.induct)
  case (1 a b alo blo besti bestj bestsize)
  show ?case
  proof (cases "besti > alo \<and> bestj > blo \<and> a ! (besti - 1) = b ! (bestj - 1)")
    case True
    then have e: "extend_left a b alo blo (besti - 1, bestj - 1, bestsize + 1) = (i, j, k)"
      using "1.prems"(3) by (simp add: extend_left.simps)
    have "alo \<le> fst (besti - 1, bestj - 1, bestsize + 1)"
      and "blo \<le> fst (snd (besti - 1, bestj - 1, bestsize + 1))"
      using True by auto
    from "1.IH"[OF True this e] True show ?thesis by auto
  next
    case False
    then show ?thesis using "1.prems" by (auto simp: extend_left.simps)
  qed
qed

lemma extend_right_bounds:
  "extend_right a b ahi bhi st = (i, j, k) \<Longrightarrow>
     i = fst st \<and> j = fst (snd st) \<and> snd (snd st) \<le> k
     \<and> (k = snd (snd st) \<or> (i + k \<le> ahi \<and> j + k \<le> bhi))"
proof (induction a b ahi bhi st rule: extend_right.induct)
  case (1 a b ahi bhi besti bestj bestsize)
  show ?case
  proof (cases "besti + bestsize < ahi \<and> bestj + bestsize < bhi
         \<and> a ! (besti + bestsize) = b ! (bestj + bestsize)")
    case True
    then have "extend_right a b ahi bhi (besti, bestj, bestsize + 1) = (i, j, k)"
      using "1.prems" by (simp add: extend_right.simps)
    with "1.IH"[OF True] True show ?thesis by auto
  next
    case False
    then show ?thesis using "1.prems" by (auto simp: extend_right.simps)
  qed
qed

text \<open>
  The block \<open>find_longest_match\<close> returns lies in the ranges it was given, as the
  library documents: no index is read out of range and no subtraction is cut off.
\<close>

lemma find_longest_match_bounds:
  assumes "find_longest_match a b alo ahi blo bhi = (i, j, k)"
  shows "alo \<le> i \<and> blo \<le> j \<and> (k = 0 \<or> (i + k \<le> ahi \<and> j + k \<le> bhi))"
proof -
  obtain i0 j0 k0
    where m: "snd (flm_main a b blo bhi [alo..<ahi] (Map.empty, alo, blo, 0)) = (i0, j0, k0)"
    using prod_cases3 by blast
  obtain i1 j1 k1 where l: "extend_left a b alo blo (i0, j0, k0) = (i1, j1, k1)"
    using prod_cases3 by blast
  have r: "extend_right a b ahi bhi (i1, j1, k1) = (i, j, k)"
    using assms by (simp add: find_longest_match_def m l)
  have b0: "alo \<le> i0" "blo \<le> j0" "if k0 = 0 then i0 = alo \<and> j0 = blo else j0 + k0 \<le> bhi"
      "alo \<le> ahi \<longrightarrow> i0 + k0 \<le> ahi" "\<not> alo \<le> ahi \<longrightarrow> k0 = 0 \<and> i0 = alo"
    using flm_main_bounds[OF m] by simp_all
  have b1: "alo \<le> i1" "blo \<le> j1" "i1 + k1 = i0 + k0" "j1 + k1 = j0 + k0" "k0 \<le> k1"
    using extend_left_bounds[OF _ _ l] b0(1,2) by simp_all
  have b2: "i = i1" "j = j1" "k1 \<le> k" "k = k1 \<or> (i + k \<le> ahi \<and> j + k \<le> bhi)"
    using extend_right_bounds[OF r] by auto
  have k1: "k1 = 0 \<or> (i1 + k1 \<le> ahi \<and> j1 + k1 \<le> bhi)"
  proof (cases "k0 = 0")
    case True
    then have "i0 = alo" using b0(3) by simp
    then have "k1 = 0" using b1(1,3) True by linarith
    then show ?thesis by simp
  next
    case nz: False
    then have "j0 + k0 \<le> bhi" using b0(3) by simp
    moreover have "alo \<le> ahi" using b0(5) nz by blast
    then have "i0 + k0 \<le> ahi" using b0(4) by simp
    ultimately show ?thesis using b1 by simp
  qed
  show ?thesis using b1(1,2) b2 k1 by auto
qed

text \<open>Every pop replaces a range by strictly narrower ones: the loop ends.\<close>

termination mb_loop
proof (relation "measure (\<lambda>(a, b, queue, blocks). queue_weight queue)")
  show "wf (measure (\<lambda>(a, b, queue, blocks). queue_weight queue))" by simp
next
  fix a b :: "'a list" and alo ahi blo bhi :: nat and queue :: "(nat \<times> nat \<times> nat \<times> nat) list"
    and blocks :: "(nat \<times> nat \<times> nat) list" and x xa ya :: nat and y :: "nat \<times> nat"
  assume f: "(x, y) = find_longest_match a b alo ahi blo bhi" and y: "(xa, ya) = y" and k: "ya \<noteq> 0"
  have "find_longest_match a b alo ahi blo bhi = (x, xa, ya)" using f y by simp
  from find_longest_match_bounds[OF this] k have b: "alo \<le> x" "x + ya \<le> ahi" by auto
  have "queue_weight ((if x + ya < ahi \<and> xa + ya < bhi then [(x + ya, ahi, xa + ya, bhi)] else []) @
             (if alo < x \<and> blo < xa then [(alo, x, blo, xa)] else []) @ queue)
        < queue_weight ((alo, ahi, blo, bhi) # queue)"
    using b k by (auto simp: queue_weight_def)
  then show "((a, b,
             (if x + ya < ahi \<and> xa + ya < bhi then [(x + ya, ahi, xa + ya, bhi)] else []) @
             (if alo < x \<and> blo < xa then [(alo, x, blo, xa)] else []) @ queue,
             blocks @ [(x, xa, ya)]),
            a, b, (alo, ahi, blo, bhi) # queue, blocks)
           \<in> measure (\<lambda>(a, b, queue, blocks). queue_weight queue)" by simp
next
  fix a b :: "'a list" and alo ahi blo bhi :: nat and queue :: "(nat \<times> nat \<times> nat \<times> nat) list"
    and blocks :: "(nat \<times> nat \<times> nat) list"
  show "((a, b, queue, blocks), a, b, (alo, ahi, blo, bhi) # queue, blocks)
           \<in> measure (\<lambda>(a, b, queue, blocks). queue_weight queue)"
    by (simp add: queue_weight_def)
qed

declare mb_loop.simps [simp del]

section \<open>Worked examples\<close>

text \<open>The examples of the library's documentation of the matcher.\<close>

lemma matcher_documented_examples:
  "get_matching_blocks ''abxcd'' ''abcd'' = [(0, 0, 2), (3, 2, 2), (5, 4, 0)]"
  "find_longest_match '' abcd'' ''abcd abcd'' 0 5 0 9 = (0, 4, 5)"
  "find_longest_match ''ab'' ''c'' 0 2 0 1 = (0, 0, 0)"
  "ratio ''abcd'' ''bcde'' = 3 / 4"
  by code_simp+

text \<open>
  The test list at the end of \<open>deduplicator.py\<close>: job 2 is merged into job 1, and job 5,
  with the higher score, replaces job 3 and goes to the end.
\<close>

lemma deduplicator_test_jobs:
  "deduplicate JobDeduplicator_default
     [test_job_1, test_job_2, test_job_3, test_job_4, test_job_5]
   = [test_job_1, test_job_4, test_job_5]"
  by code_simp

section \<open>Strings\<close>

text \<open>\<open>str_contains\<close> is the contiguous-sublist relation of the library.\<close>

lemma str_contains_sublist: "str_contains k t = sublist k t"
  by (induction t) (auto simp: sublist_Cons_right)

lemma strip_lower_None: "strip (lower ''None'') = ''none''"
  by code_simp

lemma strip_lower_Nil: "strip (lower []) = []"
  by (simp add: strip_def lower_def)

section \<open>Properties of the Scorer\<close>

lemma any_keyword_in_iff: "any_keyword_in ks t = (\<exists>k\<in>set ks. str_contains k t)"
  by (induction ks) auto

text \<open>
  C6: \<open>is_internship\<close> is true exactly when some internship keyword is a substring of
  the lower-cased title, or one of the first three internship keywords is a substring
  of the first 500 characters of the lower-cased description.
\<close>

theorem is_internship_iff:
  "is_internship self job \<longleftrightarrow>
     (\<exists>k\<in>set (internship_keywords self). str_contains k (lowered_text (title job)))
     \<or> (\<exists>k\<in>set (take 3 (internship_keywords self)).
           str_contains k (take 500 (lowered_text (description job))))"
  by (simp add: is_internship_def Let_def any_keyword_in_iff)

theorem is_internship_iff_witness:
  "(\<exists>k\<in>set (take 3 (internship_keywords (KeywordFilter_init example_config))).
       str_contains k (take 500 (lowered_text (description designer_coop))))
   \<and> is_internship (KeywordFilter_init example_config) designer_coop
   \<and> \<not> is_internship (KeywordFilter_init example_config) designer_analyst"
proof -
  have h: "\<exists>k\<in>set (take 3 (internship_keywords (KeywordFilter_init example_config))).
       str_contains k (take 500 (lowered_text (description designer_coop)))"
    by code_simp
  have n: "\<not> ((\<exists>k\<in>set (internship_keywords (KeywordFilter_init example_config)).
              str_contains k (lowered_text (title designer_analyst)))
     \<or> (\<exists>k\<in>set (take 3 (internship_keywords (KeywordFilter_init example_config))).
           str_contains k (take 500 (lowered_text (description designer_analyst)))))"
    by code_simp
  from h n is_internship_iff[of "KeywordFilter_init example_config" designer_coop]
    is_internship_iff[of "KeywordFilter_init example_config" designer_analyst]
  show ?thesis by blast
qed

text \<open>Each scoring loop adds its weight once per keyword found, and records the keyword.\<close>

lemma score_keywords_eq:
  "score_keywords w ks t (s, m) =
     (s + w * int (length (filter (\<lambda>k. str_contains k t) ks)), m @ filter (\<lambda>k. str_contains k t) ks)"
  by (induction ks arbitrary: s m) (auto simp: algebra_simps)

lemma calculate_relevance_score_eq:
  "calculate_relevance_score self job =
     (let title = lowered_text (title job); description = lowered_text (description job);
          matches = filter (\<lambda>k. str_contains k title) (include_title self);
          excludes = filter (\<lambda>k. str_contains k title) (exclude_title self);
          desc_matches = filter (\<lambda>k. str_contains k description) (include_description self);
          total = 3 * int (length matches) - 10 * int (length excludes) + int (length desc_matches)
      in (total, \<lparr>title_matches = matches, title_excludes = excludes,
                  description_matches = desc_matches, total_score = total\<rparr>))"
  by (simp add: calculate_relevance_score_def score_keywords_eq Let_def)

lemma relevance_score_closed_form:
  "fst (calculate_relevance_score self job) =
     3 * int (length (filter (\<lambda>k. str_contains k (lowered_text (title job))) (include_title self)))
     - 10 * int (length (filter (\<lambda>k. str_contains k (lowered_text (title job))) (exclude_title self)))
     + 1 * int (length (filter (\<lambda>k. str_contains k (lowered_text (description job))) (include_description self)))"
  by (simp add: calculate_relevance_score_eq Let_def)

lemma add_include_title:
  assumes "str_contains (lower k) (lowered_text (title job))"
  shows "fst (calculate_relevance_score
                (KeywordFilter_init (config\<lparr>cfg_include_title := Some (xs @ k # ys)\<rparr>)) job)
       = fst (calculate_relevance_score
                (KeywordFilter_init (config\<lparr>cfg_include_title := Some (xs @ ys)\<rparr>)) job) + 3"
  using assms by (simp add: relevance_score_closed_form KeywordFilter_init_def lowered_def)

lemma add_exclude_title:
  assumes "str_contains (lower k) (lowered_text (title job))"
  shows "fst (calculate_relevance_score
                (KeywordFilter_init (config\<lparr>cfg_exclude_title := Some (xs @ k # ys)\<rparr>)) job)
       = fst (calculate_relevance_score
                (KeywordFilter_init (config\<lparr>cfg_exclude_title := Some (xs @ ys)\<rparr>)) job) - 10"
  using assms by (simp add: relevance_score_closed_form KeywordFilter_init_def lowered_def)

lemma add_include_description:
  assumes "str_contains (lower k) (lowered_text (description job))"
  shows "fst (calculate_relevance_score
                (KeywordFilter_init (config\<lparr>cfg_include_description := Some (xs @ k # ys)\<rparr>)) job)
       = fst (calculate_relevance_score
                (KeywordFilter_init (config\<lparr>cfg_include_description := Some (xs @ ys)\<rparr>)) job) + 1"
  using assms by (simp add: relevance_score_closed_form KeywordFilter_init_def lowered_def)

text \<open>
  C5: the relevance score is 3 times the number of \<open>include_title\<close> keywords found in
  the lower-cased title, minus 10 times the number of \<open>exclude_title\<close> keywords found
  there, plus the number of \<open>include_description\<close> keywords found in the lower-cased
  description. Hence one more matching keyword in the configured \<open>include_title\<close>
  list changes the score by +3, in \<open>exclude_title\<close> by -10 and in
  \<open>include_description\<close> by +1.
\<close>

theorem relevance_score_formula:
  "fst (calculate_relevance_score self job) =
     3 * int (length (filter (\<lambda>k. str_contains k (lowered_text (title job))) (include_title self)))
     - 10 * int (length (filter (\<lambda>k. str_contains k (lowered_text (title job))) (exclude_title self)))
     + 1 * int (length (filter (\<lambda>k. str_contains k (lowered_text (description job)))
                         (include_description self)))
   \<and> (str_contains (lower k1) (lowered_text (title job)) \<longrightarrow>
        fst (calculate_relevance_score
               (KeywordFilter_init (config\<lparr>cfg_include_title := Some (xs1 @ k1 # ys1)\<rparr>)) job)
        = fst (calculate_relevance_score
               (KeywordFilter_init (config\<lparr>cfg_include_title := Some (xs1 @ ys1)\<rparr>)) job) + 3)
   \<and> (str_contains (lower k2) (lowered_text (title job)) \<longrightarrow>
        fst (calculate_relevance_score
               (KeywordFilter_init (config\<lparr>cfg_exclude_title := Some (xs2 @ k2 # ys2)\<rparr>)) job)
        = fst (calculate_relevance_score
               (KeywordFilter_init (config\<lparr>cfg_exclude_title := Some (xs2 @ ys2)\<rparr>)) job) - 10)
   \<and> (str_contains (lower k3) (lowered_text (description job)) \<longrightarrow>
        fst (calculate_relevance_score
               (KeywordFilter_init (config\<lparr>cfg_include_description := Some (xs3 @ k3 # ys3)\<rparr>)) job)
        = fst (calculate_relevance_score
               (KeywordFilter_init (config\<lparr>cfg_include_description := Some (xs3 @ ys3)\<rparr>)) job) + 1)"
  using relevance_score_closed_form[of self job]
    add_include_title[where k = k1 and job = job and config = config and xs = xs1 and ys = ys1]
    add_exclude_title[where k = k2 and job = job and config = config and xs = xs2 and ys = ys2]
    add_include_description[where k = k3 and job = job and config = config and xs = xs3 and ys = ys3]
  by blast

theorem relevance_score_formula_witness:
  "str_contains (lower ''Intern'') (lowered_text (title ux_design_intern))
   \<and> str_contains (lower ''Design'') (lowered_text (title ux_design_intern))
   \<and> str_contains (lower ''Prototypes'') (lowered_text (description ux_design_intern))
   \<and> fst (calculate_relevance_score
            (KeywordFilter_init
               (example_config\<lparr>cfg_include_title := Some ([''Design'', ''UX''] @ ''Intern'' # [])\<rparr>))
            ux_design_intern)
      = fst (calculate_relevance_score
            (KeywordFilter_init (example_config\<lparr>cfg_include_title := Some ([''Design'', ''UX''] @ [])\<rparr>))
            ux_design_intern) + 3
   \<and> fst (calculate_relevance_score
            (KeywordFilter_init
               (example_config\<lparr>cfg_exclude_title := Some ([''Engineer''] @ ''Design'' # [])\<rparr>))
            ux_design_intern)
      = fst (calculate_relevance_score
            (KeywordFilter_init (example_config\<lparr>cfg_exclude_title := Some ([''Engineer''] @ [])\<rparr>))
            ux_design_intern) - 10
   \<and> fst (calculate_relevance_score
            (KeywordFilter_init
               (example_config\<lparr>cfg_include_description := Some ([] @ ''Prototypes'' # [''Figma''])\<rparr>))
            ux_design_intern)
      = fst (calculate_relevance_score
            (KeywordFilter_init (example_config\<lparr>cfg_include_description := Some ([] @ [''Figma''])\<rparr>))
            ux_design_intern) + 1"
proof -
  have h1: "str_contains (lower ''Intern'') (lowered_text (title ux_design_intern))"
    by code_simp
  have h2: "str_contains (lower ''Design'') (lowered_text (title ux_design_intern))"
    by code_simp
  have h3: "str_contains (lower ''Prototypes'') (lowered_text (description ux_design_intern))"
    by code_simp
  note t = relevance_score_formula
      [where job = ux_design_intern and config = example_config
         and self = "KeywordFilter_init example_config"
         and ?k1.0 = "''Intern''" and ?xs1.0 = "[''Design'', ''UX'']" and ?ys1.0 = "[]"
         and ?k2.0 = "''Design''" and ?xs2.0 = "[''Engineer'']" and ?ys2.0 = "[]"
         and ?k3.0 = "''Prototypes''" and ?xs3.0 = "[]" and ?ys3.0 = "[''Figma'']"]
  from t h1 h2 h3 show ?thesis by blast
qed

text \<open>The loop of \<open>filter_jobs\<close> keeps the passing jobs, in order, with their scores attached.\<close>

lemma filter_loop_eq:
  "filter_loop self require_internship jobs =
     map (\<lambda>j. j\<lparr>relevance_score := Some (fst (calculate_relevance_score self j)),
                score_breakdown := Some (snd (calculate_relevance_score self j))\<rparr>)
       (filter (\<lambda>j. (require_internship \<longrightarrow> is_internship self j) \<and> is_relevant self j) jobs)"
  by (induction jobs) (auto simp: is_relevant_def split: prod.splits)

text \<open>The descending sort permutes, sorts, and keeps jobs of equal key in their order.\<close>

lemma mset_sort_key_reverse: "mset (sort_key_reverse f xs) = mset xs"
  by (simp add: sort_key_reverse_def)

lemma set_sort_key_reverse: "set (sort_key_reverse f xs) = set xs"
  by (simp add: sort_key_reverse_def)

lemma sorted_sort_key_reverse: "sorted_wrt (\<lambda>a b. f a \<ge> f b) (sort_key_reverse f xs)"
proof -
  have "sorted (map f (sort_key f (rev xs)))" by (rule sorted_sort_key)
  then have "sorted_wrt (\<lambda>a b. f a \<le> f b) (sort_key f (rev xs))"
    by (simp add: sorted_wrt_map)
  then show ?thesis by (simp add: sort_key_reverse_def sorted_wrt_rev)
qed

lemma stable_sort_key_reverse:
  "filter (\<lambda>y. f y = k) (sort_key_reverse f xs) = filter (\<lambda>y. f y = k) xs"
proof -
  have "filter (\<lambda>y. f y = k) (rev (sort_key f (rev xs)))
      = rev (filter (\<lambda>y. f y = k) (sort_key f (rev xs)))" by (simp add: rev_filter)
  also have "\<dots> = rev (filter (\<lambda>y. f y = k) (rev xs))" by (simp only: sort_key_stable)
  also have "\<dots> = filter (\<lambda>y. f y = k) xs" by (simp add: rev_filter)
  finally show ?thesis by (simp add: sort_key_reverse_def)
qed

text \<open>
  C7: \<open>filter_jobs\<close> returns exactly the jobs that pass the internship gate (when
  \<open>require_internship\<close> is set) and whose score reaches \<open>minimum_score\<close>, each with
  \<open>relevance_score\<close> and \<open>score_breakdown\<close> attached, in descending order of
  \<open>relevance_score\<close>, jobs of equal score in their original relative order.
\<close>

theorem filter_jobs_kept_sorted_stable:
  "mset (filter_jobs self jobs require_internship) =
     mset (map (\<lambda>j. j\<lparr>relevance_score := Some (fst (calculate_relevance_score self j)),
                      score_breakdown := Some (snd (calculate_relevance_score self j))\<rparr>)
             (filter (\<lambda>j. (require_internship \<longrightarrow> is_internship self j) \<and> is_relevant self j) jobs))
   \<and> sorted_wrt (\<lambda>a b. score_of a \<ge> score_of b) (filter_jobs self jobs require_internship)
   \<and> filter (\<lambda>j. score_of j = s) (filter_jobs self jobs require_internship) =
       filter (\<lambda>j. score_of j = s)
         (map (\<lambda>j. j\<lparr>relevance_score := Some (fst (calculate_relevance_score self j)),
                      score_breakdown := Some (snd (calculate_relevance_score self j))\<rparr>)
            (filter (\<lambda>j. (require_internship \<longrightarrow> is_internship self j) \<and> is_relevant self j) jobs))"
  unfolding filter_jobs_def filter_loop_eq
  using mset_sort_key_reverse sorted_sort_key_reverse stable_sort_key_reverse
  by blast

theorem filter_jobs_kept_sorted_stable_witness:
  "is_internship (KeywordFilter_init example_config) ux_design_intern
   \<and> \<not> is_internship (KeywordFilter_init example_config) product_designer
   \<and> mset (filter_jobs (KeywordFilter_init example_config) [product_designer, ux_design_intern] True)
     = mset [ux_design_intern_scored]"
proof -
  have h1: "is_internship (KeywordFilter_init example_config) ux_design_intern"
    by code_simp
  have h2: "\<not> is_internship (KeywordFilter_init example_config) product_designer"
    by code_simp
  have e: "map (\<lambda>j. j\<lparr>relevance_score :=
                        Some (fst (calculate_relevance_score (KeywordFilter_init example_config) j)),
                      score_breakdown :=
                        Some (snd (calculate_relevance_score (KeywordFilter_init example_config) j))\<rparr>)
             (filter (\<lambda>j. (True \<longrightarrow> is_internship (KeywordFilter_init example_config) j)
                         \<and> is_relevant (KeywordFilter_init example_config) j)
                [product_designer, ux_design_intern])
        = [ux_design_intern_scored]"
    by code_simp
  have "mset (filter_jobs (KeywordFilter_init example_config) [product_designer, ux_design_intern] True)
     = mset [ux_design_intern_scored]"
    using filter_jobs_kept_sorted_stable
            [of "KeywordFilter_init example_config" "[product_designer, ux_design_intern]" True]
    by (simp only: e)
  with h1 h2 show ?thesis by blast
qed

section \<open>Properties of the duplicate test\<close>

text \<open>
  C10: two jobs that both lack the key \<open>id\<close> are reported as duplicates with the reason
  \<open>Exact ID match\<close>, whatever their companies and titles.
\<close>

theorem missing_ids_exact_id_match:
  "job_id job1 = None \<Longrightarrow> job_id job2 = None \<Longrightarrow>
     are_jobs_duplicate self job1 job2 = (True, Exact_ID_match)
     \<and> reason_text fmt (snd (are_jobs_duplicate self job1 job2)) = ''Exact ID match''"
  by (simp add: are_jobs_duplicate_def)

theorem missing_ids_exact_id_match_witness:
  "job_id (ux_intern\<lparr>job_id := None\<rparr>) = None
   \<and> job_id ((example_job [] ''Stripe'' ''Backend Engineer'' None)\<lparr>job_id := None\<rparr>) = None
   \<and> are_jobs_duplicate JobDeduplicator_default (ux_intern\<lparr>job_id := None\<rparr>)
        ((example_job [] ''Stripe'' ''Backend Engineer'' None)\<lparr>job_id := None\<rparr>)
      = (True, Exact_ID_match)"
  using missing_ids_exact_id_match
          [of "ux_intern\<lparr>job_id := None\<rparr>"
              "(example_job [] ''Stripe'' ''Backend Engineer'' None)\<lparr>job_id := None\<rparr>"
              JobDeduplicator_default]
  by simp

text \<open>
  The company test of the source and plain coercion (\<open>str\<close>, lower-case, trim) find the
  same companies invalid.
\<close>

lemma invalid_normalized:
  "invalid_name (normalized field)
     = invalid_name (strip (lower (py_str (py_get field (PStr [])))))"
proof (cases field)
  case None
  then show ?thesis by (simp add: normalized_def strip_lower_Nil)
next
  case (Some v)
  show ?thesis
  proof (cases v)
    case PNone
    then show ?thesis
      using Some by (simp add: normalized_def strip_lower_None invalid_name_def)
  next
    case (PStr s)
    then show ?thesis
      using Some by (simp add: normalized_def strip_lower_Nil)
  qed
qed

text \<open>
  C3, as stated: a company that normalizes to \<open>nan\<close> on either side makes the pair not
  a duplicate. This fails when the two jobs carry the same \<open>id\<close>: the id test comes
  first.
\<close>

theorem invalid_company_counterexample:
  "strip (lower (py_str (py_get (company nan_company_job) (PStr [])))) = ''nan''
   \<and> fst (are_jobs_duplicate JobDeduplicator_default nan_company_job same_id_job)"
  by code_simp

text \<open>
  C3, amended: for two jobs whose \<open>id\<close> lookups differ, if either company normalizes
  (\<open>str\<close>, lower-case, trim) to \<open>nan\<close>, \<open>none\<close> or the empty string, the pair is not a
  duplicate, whatever the titles.
\<close>

theorem invalid_company_not_duplicate:
  assumes "py_get (job_id job1) PNone \<noteq> py_get (job_id job2) PNone"
    and "invalid_name (strip (lower (py_str (py_get (company job1) (PStr [])))))
         \<or> invalid_name (strip (lower (py_str (py_get (company job2) (PStr [])))))"
  shows "are_jobs_duplicate self job1 job2 = (False, Missing_or_invalid_company)"
proof -
  have "invalid_name (normalized (company job1)) \<or> invalid_name (normalized (company job2))"
    using assms(2) by (simp only: invalid_normalized)
  then show ?thesis
    using assms(1) by (simp add: are_jobs_duplicate_def Let_def)
qed

theorem invalid_company_not_duplicate_witness:
  "py_get (job_id nan_company_job) PNone \<noteq> py_get (job_id ux_intern) PNone
   \<and> invalid_name (strip (lower (py_str (py_get (company nan_company_job) (PStr [])))))
   \<and> are_jobs_duplicate JobDeduplicator_default nan_company_job ux_intern
       = (False, Missing_or_invalid_company)"
proof -
  have h1: "py_get (job_id nan_company_job) PNone \<noteq> py_get (job_id ux_intern) PNone"
    by code_simp
  have h2: "invalid_name (strip (lower (py_str (py_get (company nan_company_job) (PStr [])))))"
    by code_simp
  have "are_jobs_duplicate JobDeduplicator_default nan_company_job ux_intern
       = (False, Missing_or_invalid_company)"
    using h1 h2 by (intro invalid_company_not_duplicate) simp_all
  with h1 h2 show ?thesis by simp
qed

text \<open>
  C4, as stated: the duplicate test gives the same boolean in both argument orders, the
  similarity ratio being commutative. This fails: the matcher's ratio of
  \<open>UI/UX Design Internship\<close> to \<open>Visual Design Internship\<close> is 38/47, below the
  threshold, and 40/47 in the other order, above it.
\<close>

theorem are_jobs_duplicate_symmetry_counterexample:
  "calculate_similarity ''UI/UX Design Internship'' ''Visual Design Internship''
     \<noteq> calculate_similarity ''Visual Design Internship'' ''UI/UX Design Internship''
   \<and> fst (are_jobs_duplicate JobDeduplicator_default uiux_design_internship visual_design_internship)
     \<noteq> fst (are_jobs_duplicate JobDeduplicator_default visual_design_internship uiux_design_internship)"
  by code_simp

text \<open>
  C4, amended: the duplicate test gives the same boolean in both argument orders exactly
  when the pair is settled by one of the symmetric rules before the similarity test
  (equal ids, an invalid company, different companies, an invalid title, equal titles)
  or the two similarity ratios of the normalized titles, one per order, lie on the same
  side of the threshold. The ratio itself is not commutative.
\<close>

theorem are_jobs_duplicate_symmetric_iff:
  "(fst (are_jobs_duplicate self job1 job2) = fst (are_jobs_duplicate self job2 job1))
   \<longleftrightarrow>
     (py_get (job_id job1) PNone = py_get (job_id job2) PNone
      \<or> invalid_name (normalized (company job1)) \<or> invalid_name (normalized (company job2))
      \<or> normalized (company job1) \<noteq> normalized (company job2)
      \<or> invalid_name (normalized (title job1)) \<or> invalid_name (normalized (title job2))
      \<or> normalized (title job1) = normalized (title job2)
      \<or> ((calculate_similarity (normalized (title job1)) (normalized (title job2))
              \<ge> title_threshold self)
          = (calculate_similarity (normalized (title job2)) (normalized (title job1))
              \<ge> title_threshold self)))"
  by (auto simp: are_jobs_duplicate_def Let_def)

theorem are_jobs_duplicate_symmetric_iff_witness:
  "normalized (company uiux_design_internship) \<noteq> normalized (company visual_design_internship_stripe)
   \<and> (calculate_similarity (normalized (title uiux_design_internship))
          (normalized (title visual_design_internship_stripe))
        \<ge> title_threshold JobDeduplicator_default)
     \<noteq> (calculate_similarity (normalized (title visual_design_internship_stripe))
          (normalized (title uiux_design_internship))
        \<ge> title_threshold JobDeduplicator_default)
   \<and> fst (are_jobs_duplicate JobDeduplicator_default uiux_design_internship
             visual_design_internship_stripe)
     = fst (are_jobs_duplicate JobDeduplicator_default visual_design_internship_stripe
             uiux_design_internship)
   \<and> (calculate_similarity (normalized (title uxui_intern)) (normalized (title uxui_internship))
        \<ge> title_threshold JobDeduplicator_default)
     = (calculate_similarity (normalized (title uxui_internship)) (normalized (title uxui_intern))
        \<ge> title_threshold JobDeduplicator_default)
   \<and> fst (are_jobs_duplicate JobDeduplicator_default uxui_intern uxui_internship)
     = fst (are_jobs_duplicate JobDeduplicator_default uxui_internship uxui_intern)"
proof -
  have c: "normalized (company uiux_design_internship)
             \<noteq> normalized (company visual_design_internship_stripe)"
    by code_simp
  have a: "(calculate_similarity (normalized (title uiux_design_internship))
          (normalized (title visual_design_internship_stripe))
        \<ge> title_threshold JobDeduplicator_default)
     \<noteq> (calculate_similarity (normalized (title visual_design_internship_stripe))
          (normalized (title uiux_design_internship))
        \<ge> title_threshold JobDeduplicator_default)"
    by code_simp
  have h: "(calculate_similarity (normalized (title uxui_intern)) (normalized (title uxui_internship))
        \<ge> title_threshold JobDeduplicator_default)
     = (calculate_similarity (normalized (title uxui_internship)) (normalized (title uxui_intern))
        \<ge> title_threshold JobDeduplicator_default)"
    by code_simp
  have s1: "fst (are_jobs_duplicate JobDeduplicator_default uiux_design_internship
             visual_design_internship_stripe)
     = fst (are_jobs_duplicate JobDeduplicator_default visual_design_internship_stripe
             uiux_design_internship)"
    using c are_jobs_duplicate_symmetric_iff
            [of JobDeduplicator_default uiux_design_internship visual_design_internship_stripe]
    by blast
  have s2: "fst (are_jobs_duplicate JobDeduplicator_default uxui_intern uxui_internship)
     = fst (are_jobs_duplicate JobDeduplicator_default uxui_internship uxui_intern)"
    using h are_jobs_duplicate_symmetric_iff
            [of JobDeduplicator_default uxui_intern uxui_internship]
    by blast
  from c a s1 h s2 show ?thesis by (intro conjI)
qed

section \<open>Properties of the Deduplicator\<close>

lemma scan_unique_find:
  "scan_unique self job u rest =
     (case find (\<lambda>e. fst (are_jobs_duplicate self job e)) rest of
        None \<Rightarrow> (False, u)
      | Some e \<Rightarrow> (True, if score_of job > score_of e then remove1 e u @ [job] else u))"
  by (induction rest) auto

lemma dedup_step_find:
  "dedup_step self u job =
     (case find (\<lambda>e. fst (are_jobs_duplicate self job e)) u of
        None \<Rightarrow> u @ [job]
      | Some e \<Rightarrow> if score_of job > score_of e then remove1 e u @ [job] else u)"
  by (simp add: dedup_step_def scan_unique_find split: option.splits)

lemma subseq_remove1: "subseq (remove1 x xs) xs"
  by (induction xs) auto

lemma dedup_step_subseq:
  assumes "subseq u pre"
  shows "subseq (dedup_step self u job) (pre @ [job])"
proof (cases "find (\<lambda>e. fst (are_jobs_duplicate self job e)) u")
  case None
  then show ?thesis using assms by (simp add: dedup_step_find list_emb_append_mono)
next
  case (Some e)
  have r: "subseq (remove1 e u) pre"
    using subseq_remove1 assms by (rule subseq_order.trans)
  show ?thesis
    using Some assms r by (simp add: dedup_step_find list_emb_append_mono subseq_rev_drop_many)
qed

lemma foldl_dedup_subseq:
  "subseq u pre \<Longrightarrow> subseq (foldl (dedup_step self) u rest) (pre @ rest)"
proof (induction rest arbitrary: u pre)
  case Nil
  then show ?case by simp
next
  case (Cons x rest)
  have "subseq (foldl (dedup_step self) (dedup_step self u x) rest) ((pre @ [x]) @ rest)"
    by (rule Cons.IH) (rule dedup_step_subseq[OF Cons.prems])
  then show ?case by simp
qed

lemma deduplicate_subseq: "subseq (deduplicate self jobs) jobs"
  using foldl_dedup_subseq[of "[]" "[]" self jobs] by (simp add: deduplicate_def)

lemma deduplicate_subset: "j' \<in> set (deduplicate self jobs) \<Longrightarrow> j' \<in> set jobs"
  using list_emb_set[OF deduplicate_subseq, of j' self jobs] by blast

lemma deduplicate_foldl: "deduplicate self jobs = foldl (dedup_step self) [] jobs"
  by (simp add: deduplicate_def)

lemma deduplicate_snoc:
  "deduplicate self (jobs @ [job]) = dedup_step self (deduplicate self jobs) job"
  by (simp add: deduplicate_foldl)

text \<open>
  C2, as stated: the output keeps the relative order of the input, and an incoming job
  that replaces a matched entry takes that entry's place in the list. The second part
  fails for the place as a position. In the test list of the source the list is
  \<open>[1, 3, 4]\<close> when job 5 comes in; job 5 is a duplicate of job 3, at index 1, and has
  the higher score; the result is \<open>[1, 4, 5]\<close>, job 5 at the end, not \<open>[1, 5, 4]\<close>.
\<close>

theorem deduplicate_in_place_counterexample:
  "deduplicate JobDeduplicator_default [test_job_1, test_job_2, test_job_3, test_job_4]
     = [test_job_1, test_job_3, test_job_4]
   \<and> fst (are_jobs_duplicate JobDeduplicator_default test_job_5 test_job_3)
   \<and> score_of test_job_3 < score_of test_job_5
   \<and> deduplicate JobDeduplicator_default
        ([test_job_1, test_job_2, test_job_3, test_job_4] @ [test_job_5])
     = [test_job_1, test_job_4, test_job_5]
   \<and> deduplicate JobDeduplicator_default
        ([test_job_1, test_job_2, test_job_3, test_job_4] @ [test_job_5])
     \<noteq> (deduplicate JobDeduplicator_default [test_job_1, test_job_2, test_job_3, test_job_4])
          [1 := test_job_5]"
  by code_simp

text \<open>
  C2, amended: the output of \<open>deduplicate\<close> keeps the relative order of the input,
  entries only being removed: it is a subsequence of the input. \<open>deduplicate\<close> of the
  empty list is empty, and \<open>deduplicate\<close> of a list with one more job at its end is
  \<open>deduplicate\<close> of the list, changed for that job as follows. The first entry the job
  is a duplicate of is looked for. Without one the job is appended. With one and a
  strictly higher score of the job, that entry is removed and the job is appended at
  the end of the list (not put at the removed entry's index). Otherwise the job is
  dropped. No other entry moves.
\<close>

theorem deduplicate_preserves_order:
  "deduplicate self ([] :: 'a job_scheme list) = []
   \<and> deduplicate self (jobs @ [job]) =
       (case find (\<lambda>existing_job. fst (are_jobs_duplicate self job existing_job))
               (deduplicate self jobs) of
          None \<Rightarrow> deduplicate self jobs @ [job]
        | Some existing_job \<Rightarrow>
            if score_of job > score_of existing_job
            then remove1 existing_job (deduplicate self jobs) @ [job]
            else deduplicate self jobs)
   \<and> subseq (deduplicate self (jobs :: 'a job_scheme list)) jobs"
proof (intro conjI)
  show "deduplicate self ([] :: 'a job_scheme list) = []"
    by (simp add: deduplicate_def)
  show "deduplicate self (jobs @ [job]) =
       (case find (\<lambda>existing_job. fst (are_jobs_duplicate self job existing_job))
               (deduplicate self jobs) of
          None \<Rightarrow> deduplicate self jobs @ [job]
        | Some existing_job \<Rightarrow>
            if score_of job > score_of existing_job
            then remove1 existing_job (deduplicate self jobs) @ [job]
            else deduplicate self jobs)"
    unfolding deduplicate_snoc by (rule dedup_step_find)
  show "subseq (deduplicate self jobs) jobs"
    by (rule deduplicate_subseq)
qed

lemma dedup_step_fresh:
  "\<forall>e\<in>set u. \<not> fst (are_jobs_duplicate self job e) \<Longrightarrow> dedup_step self u job = u @ [job]"
proof -
  assume "\<forall>e\<in>set u. \<not> fst (are_jobs_duplicate self job e)"
  then have "find (\<lambda>e. fst (are_jobs_duplicate self job e)) u = None"
    by (simp add: find_None_iff)
  then show ?thesis unfolding dedup_step_find by (simp only: option.simps)
qed

lemma dedup_step_no_replace:
  assumes "\<forall>e\<in>set u. score_of job \<le> score_of e"
  shows "dedup_step self u job =
           (if \<exists>e\<in>set u. fst (are_jobs_duplicate self job e) then u else u @ [job])"
proof (cases "find (\<lambda>e. fst (are_jobs_duplicate self job e)) u")
  case None
  then have no: "\<not> (\<exists>e\<in>set u. fst (are_jobs_duplicate self job e))"
    by (auto simp: find_None_iff)
  have "dedup_step self u job = u @ [job]"
    unfolding dedup_step_find None by (simp only: option.simps)
  then show ?thesis using no by simp
next
  case (Some e)
  then have e: "e \<in> set u" "fst (are_jobs_duplicate self job e)"
    by (auto simp: find_Some_iff)
  then have "\<not> score_of job > score_of e" using assms by auto
  then have "dedup_step self u job = u"
    unfolding dedup_step_find Some by (simp only: option.simps if_False)
  then show ?thesis using e by auto
qed

text \<open>A list without later duplicates passes through the loop unchanged.\<close>

lemma foldl_dedup_fixed:
  "no_later_duplicate self (p @ s) \<Longrightarrow> foldl (dedup_step self) p s = p @ s"
proof (induction s arbitrary: p)
  case Nil
  then show ?case by simp
next
  case (Cons x s)
  have fresh: "\<forall>e\<in>set p. \<not> fst (are_jobs_duplicate self x e)"
    using Cons.prems by (auto simp: no_later_duplicate_def sorted_wrt_append)
  have "foldl (dedup_step self) (p @ [x]) s = (p @ [x]) @ s"
    using Cons.prems by (intro Cons.IH) simp
  then show ?case by (simp add: dedup_step_fresh[OF fresh])
qed

text \<open>
  On input in descending score order no incoming job beats an entry, no replacement
  happens, and the accumulated list never holds a later duplicate.
\<close>

lemma foldl_dedup_sorted:
  assumes "no_later_duplicate self u"
    and "\<forall>e\<in>set u. \<forall>x\<in>set rest. score_of x \<le> score_of e"
    and "sorted_wrt (\<lambda>a b. score_of a \<ge> score_of b) rest"
  shows "no_later_duplicate self (foldl (dedup_step self) u rest)"
  using assms
proof (induction rest arbitrary: u)
  case Nil
  then show ?case by simp
next
  case (Cons x rest)
  have le: "\<forall>e\<in>set u. score_of x \<le> score_of e" using Cons.prems(2) by simp
  show ?case
  proof (cases "\<exists>e\<in>set u. fst (are_jobs_duplicate self x e)")
    case True
    then have "dedup_step self u x = u" by (simp add: dedup_step_no_replace[OF le])
    moreover have "no_later_duplicate self (foldl (dedup_step self) u rest)"
      using Cons.prems by (intro Cons.IH) auto
    ultimately show ?thesis by simp
  next
    case False
    then have st: "dedup_step self u x = u @ [x]" by (simp add: dedup_step_no_replace[OF le])
    have "no_later_duplicate self (u @ [x])"
      using Cons.prems(1) False by (auto simp: no_later_duplicate_def sorted_wrt_append)
    moreover have "\<forall>e\<in>set (u @ [x]). \<forall>y\<in>set rest. score_of y \<le> score_of e"
      using Cons.prems(2,3) by auto
    moreover have "sorted_wrt (\<lambda>a b. score_of a \<ge> score_of b) rest"
      using Cons.prems(3) by simp
    ultimately have "no_later_duplicate self (foldl (dedup_step self) (u @ [x]) rest)"
      by (rule Cons.IH)
    then show ?thesis by (simp add: st)
  qed
qed

lemma deduplicate_fixed:
  "no_later_duplicate self u \<Longrightarrow> deduplicate self u = u"
  using foldl_dedup_fixed[of self "[]" u] by (simp add: deduplicate_def)

text \<open>
  C1, as stated: a second run of \<open>deduplicate\<close> on its own output returns it unchanged.
  This fails. In the input below \<open>UX/UI Intern\<close> (score 9) is similar to the first entry
  \<open>UX Intern\<close> and replaces it, going to the end of the list, behind
  \<open>UX/UI Internship\<close>, of which it is a duplicate too; a second run merges these two.
\<close>

theorem deduplicate_idempotent_counterexample:
  "deduplicate JobDeduplicator_default
     (deduplicate JobDeduplicator_default [ux_intern, uxui_internship, uxui_intern])
   \<noteq> deduplicate JobDeduplicator_default [ux_intern, uxui_internship, uxui_intern]"
  by code_simp

text \<open>
  C1, amended: on a list of jobs in descending order of \<open>relevance_score\<close> (missing = 0),
  the order \<open>filter_jobs\<close> produces, a second run of \<open>deduplicate\<close> on its own output
  returns that output unchanged: no job of the output is judged a duplicate of a job
  before it, so nothing more is merged.
\<close>

theorem deduplicate_idempotent_sorted:
  assumes "sorted_wrt (\<lambda>a b. score_of a \<ge> score_of b) jobs"
  shows "deduplicate self (deduplicate self jobs) = deduplicate self jobs
         \<and> sorted_wrt (\<lambda>earlier later. \<not> fst (are_jobs_duplicate self later earlier))
               (deduplicate self jobs)"
proof -
  have "no_later_duplicate self (foldl (dedup_step self) [] jobs)"
    using assms by (intro foldl_dedup_sorted) (simp_all add: no_later_duplicate_def)
  then have n: "no_later_duplicate self (deduplicate self jobs)"
    by (cases "jobs = []") (simp_all add: deduplicate_def no_later_duplicate_def)
  from deduplicate_fixed[OF n] n show ?thesis
    by (simp only: no_later_duplicate_def simp_thms)
qed

theorem deduplicate_idempotent_sorted_witness:
  "sorted_wrt (\<lambda>a b. score_of a \<ge> score_of b) [uxui_intern, ux_intern, uxui_internship]
   \<and> deduplicate JobDeduplicator_default
       (deduplicate JobDeduplicator_default [uxui_intern, ux_intern, uxui_internship])
     = deduplicate JobDeduplicator_default [uxui_intern, ux_intern, uxui_internship]"
proof -
  have h: "sorted_wrt (\<lambda>a b. score_of a \<ge> score_of b) [uxui_intern, ux_intern, uxui_internship]"
    by code_simp
  from h deduplicate_idempotent_sorted[OF h, of JobDeduplicator_default, THEN conjunct1]
  show ?thesis by (rule conjI)
qed

section \<open>Frame and empty input\<close>

lemma filter_jobs_frame:
  assumes "j' \<in> set (filter_jobs kf jobs require_internship)"
  shows "\<exists>j\<in>set jobs.
           j' = j\<lparr>relevance_score := relevance_score j', score_breakdown := score_breakdown j'\<rparr>
           \<and> job_id j' = job_id j \<and> title j' = title j \<and> company j' = company j
           \<and> location j' = location j \<and> description j' = description j \<and> url j' = url j
           \<and> posted_date j' = posted_date j \<and> source j' = source j
           \<and> job.more j' = job.more j"
proof -
  from assms obtain j where j: "j \<in> set jobs"
    and j': "j' = j\<lparr>relevance_score := Some (fst (calculate_relevance_score kf j)),
                     score_breakdown := Some (snd (calculate_relevance_score kf j))\<rparr>"
    by (auto simp: filter_jobs_def set_sort_key_reverse filter_loop_eq)
  show ?thesis
    by (rule bexI[OF _ j]) (simp add: j')
qed

text \<open>
  C8: every job in the output of \<open>filter_jobs\<close> is a job of the input with only
  \<open>relevance_score\<close> and \<open>score_breakdown\<close> set: its id, title, company, location,
  description, url, posted date, source and further keys are those of the input job.
  Every job in the output of \<open>deduplicate\<close> is a job of the input, unchanged.
\<close>

theorem scorer_and_deduplicator_frame:
  "(\<forall>j'\<in>set (filter_jobs kf jobs require_internship). \<exists>j\<in>set jobs.
       j' = j\<lparr>relevance_score := relevance_score j', score_breakdown := score_breakdown j'\<rparr>
       \<and> job_id j' = job_id j \<and> title j' = title j \<and> company j' = company j
       \<and> location j' = location j \<and> description j' = description j \<and> url j' = url j
       \<and> posted_date j' = posted_date j \<and> source j' = source j
       \<and> job.more j' = job.more j)
   \<and> (\<forall>j'\<in>set (deduplicate self jobs). j' \<in> set jobs)"
  using filter_jobs_frame[of _ kf jobs require_internship] deduplicate_subset[of _ self jobs]
  by blast

theorem scorer_and_deduplicator_frame_witness:
  "ux_design_intern_scored
     \<in> set (filter_jobs (KeywordFilter_init example_config) [product_designer, ux_design_intern] True)
   \<and> (\<exists>j\<in>set [product_designer, ux_design_intern].
         ux_design_intern_scored =
           j\<lparr>relevance_score := relevance_score ux_design_intern_scored,
             score_breakdown := score_breakdown ux_design_intern_scored\<rparr>
         \<and> job_id ux_design_intern_scored = job_id j \<and> title ux_design_intern_scored = title j
         \<and> company ux_design_intern_scored = company j
         \<and> location ux_design_intern_scored = location j
         \<and> description ux_design_intern_scored = description j
         \<and> url ux_design_intern_scored = url j
         \<and> posted_date ux_design_intern_scored = posted_date j
         \<and> source ux_design_intern_scored = source j
         \<and> job.more ux_design_intern_scored = job.more j)
   \<and> uxui_intern \<in> set (deduplicate JobDeduplicator_default [ux_intern, uxui_internship, uxui_intern])
   \<and> uxui_intern \<in> set [ux_intern, uxui_internship, uxui_intern]"
proof -
  have m1: "ux_design_intern_scored
     \<in> set (filter_jobs (KeywordFilter_init example_config) [product_designer, ux_design_intern] True)"
    by code_simp
  have m2: "uxui_intern
     \<in> set (deduplicate JobDeduplicator_default [ux_intern, uxui_internship, uxui_intern])"
    by code_simp
  note t1 = scorer_and_deduplicator_frame
      [of "KeywordFilter_init example_config" "[product_designer, ux_design_intern]" True
          JobDeduplicator_default, THEN conjunct1, THEN bspec, OF m1]
  note t2 = scorer_and_deduplicator_frame
      [of "KeywordFilter_init example_config" "[ux_intern, uxui_internship, uxui_intern]" True
          JobDeduplicator_default, THEN conjunct2, THEN bspec, OF m2]
  from m1 t1 m2 t2 show ?thesis by (intro conjI)
qed

text \<open>
  C9: on the empty list \<open>get_statistics\<close> returns, without raising, the statistics with
  total 0, average 0, range (0, 0) and no keywords, and \<open>deduplicate\<close> and \<open>filter_jobs\<close>
  return the empty list.
\<close>

theorem empty_input_results:
  "get_statistics ([] :: 'a job_scheme list)
     = Inr \<lparr>total = 0, average_score = 0, score_range = (0, 0), top_keywords = []\<rparr>
   \<and> deduplicate self ([] :: 'a job_scheme list) = []
   \<and> filter_jobs kf ([] :: 'a job_scheme list) require_internship = []"
  by (simp add: get_statistics_def deduplicate_def filter_jobs_def sort_key_reverse_def)

end
